theory Spec2Isabelle
  imports Complex_Main "HOL-Library.Word" "HOL-Library.Signed_Division"
begin

unbundle bit_operations_syntax

section \<open>Fixed-point math (math.h)\<close>

text \<open>
  \<^verbatim>\<open>typedef int32_t fixed16_t;\<close>  A 16.16 fixed-point number is a 32-bit word read
  in two's complement (\<open>sint\<close>).  Arithmetic on it wraps around, as the narrowing casts
  of the source do on the target compiler.
\<close>

type_synonym fixed16_t = "32 word"

definition FIXED16_ONE :: fixed16_t where
  "FIXED16_ONE = 65536"

text \<open>
  The one way a fixed-point operation can fail: an integer division whose divisor is
  zero.  The C division has no defined result there; the model makes the failure a value.
\<close>

datatype fault = DivideByZero

text \<open>
  \<^verbatim>\<open>return (fixed16_t)(((int64_t)a * b) >> 16);\<close>
  Both operands are sign-extended to 64 bits, multiplied there, shifted right
  arithmetically, and the result is narrowed to its low 32 bits.
\<close>

definition fixed_mul :: "fixed16_t \<Rightarrow> fixed16_t \<Rightarrow> fixed16_t" where
  "fixed_mul a b = ucast (signed_drop_bit 16 ((scast a :: 64 word) * scast b))"

text \<open>The division of two \<^verbatim>\<open>int64_t\<close> values in C: the quotient is truncated towards zero.\<close>

definition sdiv64 :: "64 word \<Rightarrow> 64 word \<Rightarrow> 64 word" where
  "sdiv64 n d = word_of_int (sint n sdiv sint d)"

text \<open>
  \<^verbatim>\<open>return (fixed16_t)(((int64_t)a << 16) / b);\<close>
  The source has no test of \<open>b\<close>: with \<open>b = 0\<close> the division itself is the failure.
\<close>

definition fixed_div :: "fixed16_t \<Rightarrow> fixed16_t \<Rightarrow> fault + fixed16_t" where
  "fixed_div a b =
     (if b = 0 then Inl DivideByZero
      else Inr (ucast (sdiv64 (push_bit 16 (scast a :: 64 word)) (scast b))))"

text \<open>
  The reference the specification compares \<open>fixed_mul\<close> with: the product of the two
  operands taken in 64-bit arithmetic and shifted right by 16, as a mathematical integer.
\<close>

definition fixed_mul_reference64 :: "fixed16_t \<Rightarrow> fixed16_t \<Rightarrow> int" where
  "fixed_mul_reference64 a b = (sint a * sint b) div 2 ^ 16"


text \<open>
  \<^verbatim>\<open>fixed_sqrt\<close>: zero for a non-positive argument, otherwise 16 rounds of
  \<^verbatim>\<open>temp = fixed_div(x, result); result = (result + temp) >> 1;\<close> starting from \<open>x\<close>.
  The sum is taken in 32 bits and the shift is arithmetic.
\<close>

fun fixed_sqrt_loop :: "nat \<Rightarrow> fixed16_t \<Rightarrow> fixed16_t \<Rightarrow> fault + fixed16_t" where
  "fixed_sqrt_loop 0 x result = Inr result"
| "fixed_sqrt_loop (Suc n) x result =
     (case fixed_div x result of
        Inl e \<Rightarrow> Inl e
      | Inr temp \<Rightarrow> fixed_sqrt_loop n x (signed_drop_bit 1 (result + temp)))"

definition fixed_sqrt :: "fixed16_t \<Rightarrow> fault + fixed16_t" where
  "fixed_sqrt x = (if sint x \<le> 0 then Inr 0 else fixed_sqrt_loop 16 x x)"

datatype vec2_t = Vec2 (vec_x: fixed16_t) (vec_y: fixed16_t)

definition vec2_add :: "vec2_t \<Rightarrow> vec2_t \<Rightarrow> vec2_t" where
  "vec2_add a b = Vec2 (vec_x a + vec_x b) (vec_y a + vec_y b)"

definition vec2_sub :: "vec2_t \<Rightarrow> vec2_t \<Rightarrow> vec2_t" where
  "vec2_sub a b = Vec2 (vec_x a - vec_x b) (vec_y a - vec_y b)"

definition vec2_scale :: "vec2_t \<Rightarrow> fixed16_t \<Rightarrow> vec2_t" where
  "vec2_scale v s = Vec2 (fixed_mul (vec_x v) s) (fixed_mul (vec_y v) s)"

definition vec2_dot :: "vec2_t \<Rightarrow> vec2_t \<Rightarrow> fixed16_t" where
  "vec2_dot a b = fixed_mul (vec_x a) (vec_x b) + fixed_mul (vec_y a) (vec_y b)"

definition vec2_length :: "vec2_t \<Rightarrow> fault + fixed16_t" where
  "vec2_length v = fixed_sqrt (fixed_mul (vec_x v) (vec_x v) + fixed_mul (vec_y v) (vec_y v))"

section \<open>CRC (utils.c)\<close>

text \<open>
  One round of the inner loop of \<^verbatim>\<open>crc16\<close>:
  \<^verbatim>\<open>if (crc & 0x0001) crc = (crc >> 1) ^ 0xA001; else crc = crc >> 1;\<close>
\<close>

definition crc16_round :: "16 word \<Rightarrow> 16 word" where
  "crc16_round crc = (if crc AND 1 \<noteq> 0 then drop_bit 1 crc XOR 0xA001 else drop_bit 1 crc)"

text \<open>One round of the outer loop: \<^verbatim>\<open>crc ^= data[i]\<close>, then eight inner rounds.\<close>

definition crc16_byte :: "16 word \<Rightarrow> 8 word \<Rightarrow> 16 word" where
  "crc16_byte crc b = (crc16_round ^^ 8) (crc XOR ucast b)"

definition crc16 :: "8 word list \<Rightarrow> 16 word" where
  "crc16 data = foldl crc16_byte 0xFFFF data"

section \<open>Wire packets (ble.h)\<close>

text \<open>
  Both packet structs are \<^verbatim>\<open>__attribute__((packed))\<close> and the target is
  little-endian, so the bytes that \<^verbatim>\<open>crc16((uint8_t *)packet, ...)\<close> reads are the
  fields in declaration order, each multi-byte field least significant byte first.
  The \<^verbatim>\<open>int8_t\<close> fields are 8-bit words read with \<open>sint\<close>.
\<close>

record input_packet_t =
  ip_player_id :: "8 word"
  ip_throttle :: "8 word"
  ip_brake :: "8 word"
  ip_steering :: "8 word"
  ip_buttons :: "8 word"
  ip_frame_number :: "32 word"
  ip_timestamp :: "16 word"
  ip_checksum :: "16 word"

record game_state_packet_t =
  gs_game_state :: "8 word"
  gs_player_id :: "8 word"
  gs_frame_number :: "32 word"
  gs_car_position_x :: "32 word"
  gs_car_position_y :: "32 word"
  gs_car_velocity_x :: "32 word"
  gs_car_velocity_y :: "32 word"
  gs_car_heading :: "32 word"
  gs_checkpoint_index :: "8 word"
  gs_lap_count :: "8 word"
  gs_race_finished :: "8 word"
  gs_timestamp :: "16 word"
  gs_checksum :: "16 word"

definition le16 :: "16 word \<Rightarrow> 8 word list" where
  "le16 w = [ucast w, ucast (drop_bit 8 w)]"

definition le32 :: "32 word \<Rightarrow> 8 word list" where
  "le32 w = [ucast w, ucast (drop_bit 8 w), ucast (drop_bit 16 w), ucast (drop_bit 24 w)]"

definition rd16 :: "8 word \<Rightarrow> 8 word \<Rightarrow> 16 word" where
  "rd16 b0 b1 = ucast b0 OR push_bit 8 (ucast b1)"

definition rd32 :: "8 word \<Rightarrow> 8 word \<Rightarrow> 8 word \<Rightarrow> 8 word \<Rightarrow> 32 word" where
  "rd32 b0 b1 b2 b3 =
     ucast b0 OR push_bit 8 (ucast b1) OR push_bit 16 (ucast b2) OR push_bit 24 (ucast b3)"

text \<open>The 13 bytes of an \<^verbatim>\<open>input_packet_t\<close> in memory, and the struct that 13 bytes are.\<close>

definition input_packet_bytes :: "input_packet_t \<Rightarrow> 8 word list" where
  "input_packet_bytes p =
     [ip_player_id p, ip_throttle p, ip_brake p, ip_steering p, ip_buttons p]
     @ le32 (ip_frame_number p) @ le16 (ip_timestamp p) @ le16 (ip_checksum p)"

definition input_packet_of_bytes :: "8 word list \<Rightarrow> input_packet_t" where
  "input_packet_of_bytes bs =
     \<lparr>ip_player_id = bs ! 0, ip_throttle = bs ! 1, ip_brake = bs ! 2, ip_steering = bs ! 3,
      ip_buttons = bs ! 4, ip_frame_number = rd32 (bs ! 5) (bs ! 6) (bs ! 7) (bs ! 8),
      ip_timestamp = rd16 (bs ! 9) (bs ! 10), ip_checksum = rd16 (bs ! 11) (bs ! 12)\<rparr>"

text \<open>\<^verbatim>\<open>crc16((uint8_t *)packet, sizeof(input_packet_t) - sizeof(uint16_t))\<close>\<close>

definition input_packet_crc :: "input_packet_t \<Rightarrow> 16 word" where
  "input_packet_crc p = crc16 (take (13 - 2) (input_packet_bytes p))"

text \<open>The 33 bytes of a \<^verbatim>\<open>game_state_packet_t\<close>, and the struct that 33 bytes are.\<close>

definition game_state_packet_bytes :: "game_state_packet_t \<Rightarrow> 8 word list" where
  "game_state_packet_bytes p =
     [gs_game_state p, gs_player_id p]
     @ le32 (gs_frame_number p)
     @ le32 (gs_car_position_x p) @ le32 (gs_car_position_y p)
     @ le32 (gs_car_velocity_x p) @ le32 (gs_car_velocity_y p)
     @ le32 (gs_car_heading p)
     @ [gs_checkpoint_index p, gs_lap_count p, gs_race_finished p]
     @ le16 (gs_timestamp p) @ le16 (gs_checksum p)"

definition game_state_packet_of_bytes :: "8 word list \<Rightarrow> game_state_packet_t" where
  "game_state_packet_of_bytes bs =
     \<lparr>gs_game_state = bs ! 0, gs_player_id = bs ! 1,
      gs_frame_number = rd32 (bs ! 2) (bs ! 3) (bs ! 4) (bs ! 5),
      gs_car_position_x = rd32 (bs ! 6) (bs ! 7) (bs ! 8) (bs ! 9),
      gs_car_position_y = rd32 (bs ! 10) (bs ! 11) (bs ! 12) (bs ! 13),
      gs_car_velocity_x = rd32 (bs ! 14) (bs ! 15) (bs ! 16) (bs ! 17),
      gs_car_velocity_y = rd32 (bs ! 18) (bs ! 19) (bs ! 20) (bs ! 21),
      gs_car_heading = rd32 (bs ! 22) (bs ! 23) (bs ! 24) (bs ! 25),
      gs_checkpoint_index = bs ! 26, gs_lap_count = bs ! 27, gs_race_finished = bs ! 28,
      gs_timestamp = rd16 (bs ! 29) (bs ! 30), gs_checksum = rd16 (bs ! 31) (bs ! 32)\<rparr>"

definition game_state_packet_crc :: "game_state_packet_t \<Rightarrow> 16 word" where
  "game_state_packet_crc p = crc16 (take (33 - 2) (game_state_packet_bytes p))"

section \<open>Protocol state (protocol.h, protocol.c)\<close>

text \<open>
  \<^verbatim>\<open>input_state_t\<close> of game\_types.h.  Its three \<^verbatim>\<open>float\<close> fields are modelled as real
  numbers: every finite float is one.  The code only tests them against zero, multiplies
  the steering by 100 and truncates.
\<close>

record input_state_t =
  throttle :: real
  brake :: real
  steering :: real
  buttons :: "8 word"

text \<open>
  The masks \<^verbatim>\<open>BUTTON_A\<close>, \<^verbatim>\<open>BUTTON_B\<close>, \<^verbatim>\<open>BUTTON_START\<close> and \<^verbatim>\<open>BUTTON_SELECT\<close> that
  \<^verbatim>\<open>protocol_pack_input\<close> tests are declared in no header of the repository; they are
  parameters of the model.
\<close>

record button_masks_t =
  BUTTON_A :: "8 word"
  BUTTON_B :: "8 word"
  BUTTON_START :: "8 word"
  BUTTON_SELECT :: "8 word"

record input_buffer_t =
  inputs :: "input_packet_t list"
  start_frame :: "32 word"
  count :: "32 word"

record protocol_state_t =
  is_host :: bool
  is_connected :: bool
  local_player_id :: "8 word"
  remote_player_id :: "8 word"
  current_frame :: "32 word"
  last_received_frame :: "32 word"
  latency_samples :: "32 word"
  avg_latency :: "32 word"
  jitter :: "32 word"

text \<open>
  The file-scope variables of protocol.c.  \<^verbatim>\<open>prediction_state\<close> is only ever cleared and
  is left out.
\<close>

record protocol_globals =
  protocol_state :: protocol_state_t
  local_input_buffer :: input_buffer_t
  remote_input_buffer :: input_buffer_t

definition PROTOCOL_INPUT_BUFFER_SIZE :: nat where
  "PROTOCOL_INPUT_BUFFER_SIZE = 64"

definition PROTOCOL_MAX_LATENCY_SAMPLES :: "32 word" where
  "PROTOCOL_MAX_LATENCY_SAMPLES = 100"

definition zero_input_packet :: input_packet_t where
  "zero_input_packet =
     \<lparr>ip_player_id = 0, ip_throttle = 0, ip_brake = 0, ip_steering = 0, ip_buttons = 0,
      ip_frame_number = 0, ip_timestamp = 0, ip_checksum = 0\<rparr>"

text \<open>\<^verbatim>\<open>memset(&buffer, 0, sizeof(buffer))\<close>\<close>

definition zero_input_buffer :: input_buffer_t where
  "zero_input_buffer =
     \<lparr>inputs = replicate PROTOCOL_INPUT_BUFFER_SIZE zero_input_packet,
      start_frame = 0, count = 0\<rparr>"

definition protocol_init :: "bool \<Rightarrow> protocol_globals" where
  "protocol_init host =
     \<lparr>protocol_state =
        \<lparr>is_host = host, is_connected = False,
         local_player_id = (if host then 0 else 1),
         remote_player_id = (if host then 1 else 0),
         current_frame = 0, last_received_frame = 0, latency_samples = 0,
         avg_latency = 0, jitter = 0\<rparr>,
      local_input_buffer = zero_input_buffer,
      remote_input_buffer = zero_input_buffer\<rparr>"

text \<open>
  \<^verbatim>\<open>(int8_t)(f)\<close> for a float: the fraction is discarded, towards zero, and the integer
  is stored in eight bits.
\<close>

definition truncate_float :: "real \<Rightarrow> int" where
  "truncate_float f = (if 0 \<le> f then \<lfloor>f\<rfloor> else \<lceil>f\<rceil>)"

definition float_to_int8 :: "real \<Rightarrow> 8 word" where
  "float_to_int8 f = word_of_int (truncate_float f)"

text \<open>\<^verbatim>\<open>esp_timer_get_time() / 1000\<close>, the timer being a signed 64-bit count of microseconds.\<close>

definition time_ms :: "64 word \<Rightarrow> 64 word" where
  "time_ms now = sdiv64 now 1000"

definition pack_buttons :: "button_masks_t \<Rightarrow> 8 word \<Rightarrow> 8 word" where
  "pack_buttons bm b =
     (let r0 = 0;
          r1 = (if b AND BUTTON_A bm \<noteq> 0 then r0 OR 0x01 else r0);
          r2 = (if b AND BUTTON_B bm \<noteq> 0 then r1 OR 0x02 else r1);
          r3 = (if b AND BUTTON_START bm \<noteq> 0 then r2 OR 0x04 else r2)
      in (if b AND BUTTON_SELECT bm \<noteq> 0 then r3 OR 0x08 else r3))"

text \<open>
  \<^verbatim>\<open>protocol_pack_input(input, packet)\<close>: every field of \<open>packet\<close> is assigned, the checksum
  last, over the bytes before it.  \<open>now\<close> is what \<^verbatim>\<open>esp_timer_get_time()\<close> returns.
\<close>

definition protocol_pack_input ::
  "button_masks_t \<Rightarrow> 64 word \<Rightarrow> protocol_globals \<Rightarrow> input_state_t \<Rightarrow> input_packet_t
     \<Rightarrow> input_packet_t" where
  "protocol_pack_input bm now g input packet =
     (let p = packet
            \<lparr>ip_player_id := local_player_id (protocol_state g),
             ip_frame_number := current_frame (protocol_state g),
             ip_timestamp := ucast (time_ms now),
             ip_throttle := (if throttle input \<noteq> 0 then 100 else 0),
             ip_brake := (if brake input \<noteq> 0 then 100 else 0),
             ip_steering := float_to_int8 (steering input * 100),
             ip_buttons := pack_buttons bm (buttons input)\<rparr>
      in p\<lparr>ip_checksum := input_packet_crc p\<rparr>)"

text \<open>
  What an unpack call did: it applied the packet, or it logged one of the two complaints
  and returned early.  The C functions return \<^verbatim>\<open>void\<close>; the log line is the report.
\<close>

datatype unpack_report = Applied | WrongPlayerId | ChecksumMismatch

text \<open>The three \<^verbatim>\<open>float *\<close> destinations of \<^verbatim>\<open>protocol_unpack_input\<close>.\<close>

record input_outputs =
  out_throttle :: real
  out_brake :: real
  out_steering :: real

text \<open>\<^verbatim>\<open>MAX(a, b)\<close> on \<^verbatim>\<open>uint32_t\<close>\<close>

definition MAX_u32 :: "32 word \<Rightarrow> 32 word \<Rightarrow> 32 word" where
  "MAX_u32 a b = (if a > b then a else b)"

text \<open>
  The slot a frame is stored in, as both store paths compute it:
  \<^verbatim>\<open>(frame - buffer.start_frame) % PROTOCOL_INPUT_BUFFER_SIZE\<close>
\<close>

definition buffer_index :: "input_buffer_t \<Rightarrow> 32 word \<Rightarrow> nat" where
  "buffer_index b frame = unat ((frame - start_frame b) mod 64)"

definition protocol_unpack_input ::
  "protocol_globals \<Rightarrow> input_packet_t \<Rightarrow> input_outputs
     \<Rightarrow> unpack_report \<times> protocol_globals \<times> input_outputs" where
  "protocol_unpack_input g packet outs =
     (if ip_player_id packet \<noteq> remote_player_id (protocol_state g)
      then (WrongPlayerId, g, outs)
      else if ip_checksum packet \<noteq> input_packet_crc packet
      then (ChecksumMismatch, g, outs)
      else
        let outs' = \<lparr>out_throttle = real_of_int (sint (ip_throttle packet)) / 100,
                     out_brake = real_of_int (sint (ip_brake packet)) / 100,
                     out_steering = real_of_int (sint (ip_steering packet)) / 100\<rparr>;
            rb = remote_input_buffer g;
            i = buffer_index rb (ip_frame_number packet);
            rb' = (if ip_frame_number packet \<ge> start_frame rb
                      \<and> ip_frame_number packet < start_frame rb + 64
                   then rb\<lparr>inputs := (inputs rb)[i := packet],
                           count := MAX_u32 (count rb)
                                      (ip_frame_number packet - start_frame rb + 1)\<rparr>
                   else rb)
        in (Applied, g\<lparr>remote_input_buffer := rb'\<rparr>, outs'))"

definition protocol_store_local_input ::
  "button_masks_t \<Rightarrow> 64 word \<Rightarrow> protocol_globals \<Rightarrow> input_state_t \<Rightarrow> 32 word
     \<Rightarrow> protocol_globals" where
  "protocol_store_local_input bm now g input frame =
     (let lb = local_input_buffer g;
          i = buffer_index lb frame
      in if frame \<ge> start_frame lb \<and> frame < start_frame lb + 64
         then g\<lparr>local_input_buffer :=
                  lb\<lparr>inputs := (inputs lb)[i := protocol_pack_input bm now g input (inputs lb ! i)],
                     count := MAX_u32 (count lb) (frame - start_frame lb + 1)\<rparr>\<rparr>
         else g)"

text \<open>The neutral input of the first two branches: four fields cleared, the frame stamped.\<close>

definition neutral_input :: "32 word \<Rightarrow> input_packet_t \<Rightarrow> input_packet_t" where
  "neutral_input frame predicted_input =
     predicted_input\<lparr>ip_throttle := 0, ip_brake := 0, ip_steering := 0, ip_buttons := 0,
                     ip_frame_number := frame\<rparr>"

text \<open>
  \<^verbatim>\<open>protocol_predict_remote_input(frame, predicted_input)\<close>: the returned flag and the
  contents of \<open>predicted_input\<close> afterwards.
\<close>

definition protocol_predict_remote_input ::
  "protocol_globals \<Rightarrow> 32 word \<Rightarrow> input_packet_t \<Rightarrow> bool \<times> input_packet_t" where
  "protocol_predict_remote_input g frame predicted_input =
     (let rb = remote_input_buffer g in
      if count rb = 0 then (True, neutral_input frame predicted_input)
      else if frame < start_frame rb then (True, neutral_input frame predicted_input)
      else if frame < start_frame rb + count rb
      then (True, inputs rb ! buffer_index rb frame)
      else
        let last_frame = start_frame rb + count rb - 1;
            last_index = unat (last_frame mod 64)
        in (True, (inputs rb ! last_index)\<lparr>ip_frame_number := frame\<rparr>))"

text \<open>The clean-up that \<^verbatim>\<open>protocol_advance_frame\<close> applies to each of the two buffers.\<close>

definition compact_buffer :: "32 word \<Rightarrow> input_buffer_t \<Rightarrow> input_buffer_t" where
  "compact_buffer cf b =
     (let buffer_end = start_frame b + count b
      in if cf > buffer_end + 64 div 2
         then b\<lparr>start_frame := cf - 64 div 4, count := 64 div 4\<rparr>
         else b)"

definition protocol_advance_frame :: "protocol_globals \<Rightarrow> protocol_globals" where
  "protocol_advance_frame g =
     (let ps = (protocol_state g)\<lparr>current_frame := current_frame (protocol_state g) + 1\<rparr>
      in g\<lparr>protocol_state := ps,
           local_input_buffer := compact_buffer (current_frame ps) (local_input_buffer g),
           remote_input_buffer := compact_buffer (current_frame ps) (remote_input_buffer g)\<rparr>)"

definition protocol_reset :: "protocol_globals \<Rightarrow> protocol_globals" where
  "protocol_reset g =
     g\<lparr>protocol_state :=
         (protocol_state g)\<lparr>current_frame := 0, last_received_frame := 0,
                            latency_samples := 0, avg_latency := 0, jitter := 0\<rparr>,
       local_input_buffer := zero_input_buffer,
       remote_input_buffer := zero_input_buffer\<rparr>"

definition protocol_handle_connection :: "protocol_globals \<Rightarrow> bool \<Rightarrow> protocol_globals" where
  "protocol_handle_connection g conn =
     (let g' = g\<lparr>protocol_state := (protocol_state g)\<lparr>is_connected := conn\<rparr>\<rparr>
      in if \<not> conn then protocol_reset g' else g')"

section \<open>Physics (physics.h, physics.c)\<close>

text \<open>
  \<^verbatim>\<open>FLOAT_TO_FIXED16(4.0f)\<close> and \<^verbatim>\<open>FLOAT_TO_FIXED16(0.75f)\<close> are compile-time
  constants; both products with 65536 are exact.
\<close>

definition PHYSICS_WALL_DISTANCE :: fixed16_t where
  "PHYSICS_WALL_DISTANCE = 262144"

definition PHYSICS_COLLISION_ELASTICITY :: fixed16_t where
  "PHYSICS_COLLISION_ELASTICITY = 49152"

definition INT_TO_FIXED16 :: "32 word \<Rightarrow> fixed16_t" where
  "INT_TO_FIXED16 i = i * 65536"

record car_physics_t =
  position :: vec2_t
  velocity :: vec2_t
  acceleration :: vec2_t
  heading :: fixed16_t
  angular_vel :: fixed16_t
  speed :: fixed16_t
  mass :: fixed16_t
  drag :: fixed16_t
  friction :: fixed16_t

text \<open>
  \<^verbatim>\<open>checkpoint_t\<close>.  The field \<open>cp_lap_count\<close> is written and read by protocol.c
  (\<^verbatim>\<open>world->checkpoints[i].lap_count\<close>) although physics.h does not declare it.
\<close>

record checkpoint_t =
  cp_position :: vec2_t
  cp_radius :: fixed16_t
  cp_passed :: bool
  cp_index :: "8 word"
  cp_lap_count :: "8 word"

text \<open>
  \<^verbatim>\<open>physics_world_t\<close>: two cars, sixteen checkpoint slots.  \<open>total_laps\<close> is read by
  \<^verbatim>\<open>protocol_pack_game_state\<close> only and is not declared in physics.h either.  The world
  has no lap counter of a car.
\<close>

record physics_world_t =
  cars :: "car_physics_t list"
  checkpoints :: "checkpoint_t list"
  checkpoint_count :: "8 word"
  current_checkpoint :: "8 word list"
  race_time :: "32 word list"
  race_finished :: "bool list"
  track_length :: fixed16_t
  total_laps :: "8 word"

text \<open>
  \<^verbatim>\<open>physics_check_track_collision(position, &normal, &penetration)\<close>, both pointers
  non-null as in its caller.  The result is the returned flag with the contents of
  \<open>normal\<close> and \<open>penetration\<close> afterwards; they keep their old contents where the code
  does not write them.
\<close>

definition physics_check_track_collision ::
  "vec2_t \<Rightarrow> vec2_t \<Rightarrow> fixed16_t \<Rightarrow> fault + (bool \<times> vec2_t \<times> fixed16_t)" where
  "physics_check_track_collision pos normal penetration =
     (case vec2_length pos of
        Inl e \<Rightarrow> Inl e
      | Inr distance_from_center \<Rightarrow>
          if sint distance_from_center > sint PHYSICS_WALL_DISTANCE then
            (if distance_from_center \<noteq> 0 then
               (case fixed_div FIXED16_ONE distance_from_center of
                  Inl e \<Rightarrow> Inl e
                | Inr q \<Rightarrow> Inr (True, vec2_scale pos q,
                                  distance_from_center - PHYSICS_WALL_DISTANCE))
             else Inr (True, normal, distance_from_center - PHYSICS_WALL_DISTANCE))
          else if sint distance_from_center < sint (- PHYSICS_WALL_DISTANCE) then
            (if distance_from_center \<noteq> 0 then
               (case fixed_div FIXED16_ONE distance_from_center of
                  Inl e \<Rightarrow> Inl e
                | Inr q \<Rightarrow> Inr (True, vec2_scale pos (- q),
                                  - PHYSICS_WALL_DISTANCE - distance_from_center))
             else Inr (True, normal, - PHYSICS_WALL_DISTANCE - distance_from_center))
          else Inr (False, normal, penetration))"

text \<open>
  The body of the first loop of \<^verbatim>\<open>resolve_collisions\<close>, for one car.  \<open>normal0\<close> and
  \<open>penetration0\<close> stand for the indeterminate initial contents of the two locals.
\<close>

definition resolve_track_collision ::
  "vec2_t \<Rightarrow> fixed16_t \<Rightarrow> car_physics_t \<Rightarrow> fault + car_physics_t" where
  "resolve_track_collision normal0 penetration0 car =
     (case physics_check_track_collision (position car) normal0 penetration0 of
        Inl e \<Rightarrow> Inl e
      | Inr (hit, normal, penetration) \<Rightarrow>
          if hit then
            let correction = vec2_scale normal penetration;
                car1 = car\<lparr>position := vec2_add (position car) correction\<rparr>;
                normal_vel = vec2_dot (velocity car1) normal
            in if sint normal_vel < 0 then
                 let reflected = vec2_sub (velocity car1)
                       (vec2_scale normal (fixed_mul (FIXED16_ONE * 2) normal_vel))
                 in Inr (car1\<lparr>velocity := vec2_scale reflected PHYSICS_COLLISION_ELASTICITY\<rparr>)
               else Inr car1
          else Inr car)"

fun resolve_track_loop ::
  "vec2_t \<Rightarrow> fixed16_t \<Rightarrow> car_physics_t list \<Rightarrow> fault + car_physics_t list" where
  "resolve_track_loop normal0 penetration0 [] = Inr []"
| "resolve_track_loop normal0 penetration0 (car # rest) =
     (case resolve_track_collision normal0 penetration0 car of
        Inl e \<Rightarrow> Inl e
      | Inr car' \<Rightarrow>
          (case resolve_track_loop normal0 penetration0 rest of
             Inl e \<Rightarrow> Inl e
           | Inr rest' \<Rightarrow> Inr (car' # rest')))"

definition physics_check_car_collision :: "car_physics_t \<Rightarrow> car_physics_t \<Rightarrow> bool" where
  "physics_check_car_collision car1 car2 =
     (let delta = vec2_sub (position car1) (position car2);
          distance_squared = vec2_dot delta delta;
          min_distance = INT_TO_FIXED16 100;
          min_distance_squared = fixed_mul min_distance min_distance
      in sint distance_squared < sint min_distance_squared)"

text \<open>The body of the second loop, for the one pair of cars that \<^verbatim>\<open>PHYSICS_MAX_CARS = 2\<close> leaves.\<close>

definition resolve_car_pair ::
  "car_physics_t \<Rightarrow> car_physics_t \<Rightarrow> fault + (car_physics_t \<times> car_physics_t)" where
  "resolve_car_pair ci cj =
     (if physics_check_car_collision ci cj then
        let temp = velocity ci;
            ci1 = ci\<lparr>velocity := velocity cj\<rparr>;
            cj1 = cj\<lparr>velocity := temp\<rparr>;
            delta = vec2_sub (position ci1) (position cj1)
        in (case vec2_length delta of
              Inl e \<Rightarrow> Inl e
            | Inr len \<Rightarrow>
                (case fixed_div FIXED16_ONE len of
                   Inl e \<Rightarrow> Inl e
                 | Inr q \<Rightarrow>
                     let direction = vec2_scale delta q
                     in Inr (ci1\<lparr>position := vec2_add (position ci1)
                                     (vec2_scale direction (INT_TO_FIXED16 50))\<rparr>,
                             cj1\<lparr>position := vec2_sub (position cj1)
                                     (vec2_scale direction (INT_TO_FIXED16 50))\<rparr>)))
      else Inr (ci, cj))"

definition resolve_collisions ::
  "vec2_t \<Rightarrow> fixed16_t \<Rightarrow> physics_world_t \<Rightarrow> fault + physics_world_t" where
  "resolve_collisions normal0 penetration0 world =
     (case resolve_track_loop normal0 penetration0 (take 2 (cars world)) of
        Inl e \<Rightarrow> Inl e
      | Inr cs \<Rightarrow>
          (case resolve_car_pair (cs ! 0) (cs ! 1) of
             Inl e \<Rightarrow> Inl e
           | Inr (c0, c1) \<Rightarrow> Inr (world\<lparr>cars := [c0, c1]\<rparr>)))"


text \<open>\<^verbatim>\<open>for (int i = 0; i < world->checkpoint_count; i++) world->checkpoints[i].passed = false;\<close>\<close>

definition clear_passed :: "nat \<Rightarrow> checkpoint_t list \<Rightarrow> checkpoint_t list" where
  "clear_passed n cps = fold (\<lambda>i cs. cs[i := (cs ! i)\<lparr>cp_passed := False\<rparr>]) [0..<n] cps"


section \<open>Game-state packets (protocol.c)\<close>

text \<open>
  \<^verbatim>\<open>protocol_pack_game_state\<close>: the first checkpoint marked passed, if any, gives the
  checkpoint index, the lap count and the finished flag.
\<close>

definition protocol_pack_game_state ::
  "64 word \<Rightarrow> protocol_globals \<Rightarrow> physics_world_t \<Rightarrow> car_physics_t \<Rightarrow> game_state_packet_t
     \<Rightarrow> game_state_packet_t" where
  "protocol_pack_game_state now g world car packet =
     (let p0 = packet
            \<lparr>gs_game_state := 0,
             gs_player_id := local_player_id (protocol_state g),
             gs_frame_number := current_frame (protocol_state g),
             gs_car_position_x := vec_x (position car),
             gs_car_position_y := vec_y (position car),
             gs_car_velocity_x := vec_x (velocity car),
             gs_car_velocity_y := vec_y (velocity car),
             gs_car_heading := heading car,
             gs_checkpoint_index := 0, gs_lap_count := 0, gs_race_finished := 0\<rparr>;
          p1 = (case find (\<lambda>i. cp_passed (checkpoints world ! i))
                       [0..<unat (checkpoint_count world)] of
                  None \<Rightarrow> p0
                | Some i \<Rightarrow>
                    p0\<lparr>gs_checkpoint_index := of_nat i,
                       gs_lap_count := cp_lap_count (checkpoints world ! i),
                       gs_race_finished :=
                         (if cp_lap_count (checkpoints world ! i) \<ge> total_laps world
                          then 1 else 0)\<rparr>);
          p2 = p1\<lparr>gs_timestamp := ucast (time_ms now)\<rparr>
      in p2\<lparr>gs_checksum := game_state_packet_crc p2\<rparr>)"

text \<open>
  \<^verbatim>\<open>protocol_unpack_game_state(packet, car, world)\<close>: the report, and the three things it
  can write: the protocol state, the car and the world.
\<close>

definition protocol_unpack_game_state ::
  "64 word \<Rightarrow> protocol_globals \<Rightarrow> game_state_packet_t \<Rightarrow> car_physics_t \<Rightarrow> physics_world_t
     \<Rightarrow> unpack_report \<times> protocol_globals \<times> car_physics_t \<times> physics_world_t" where
  "protocol_unpack_game_state now g packet car world =
     (if gs_player_id packet \<noteq> remote_player_id (protocol_state g)
      then (WrongPlayerId, g, car, world)
      else if gs_checksum packet \<noteq> game_state_packet_crc packet
      then (ChecksumMismatch, g, car, world)
      else
        let car' = car\<lparr>position := Vec2 (gs_car_position_x packet) (gs_car_position_y packet),
                       velocity := Vec2 (gs_car_velocity_x packet) (gs_car_velocity_y packet),
                       heading := gs_car_heading packet\<rparr>;
            k = unat (gs_checkpoint_index packet);
            world' = (if gs_checkpoint_index packet < checkpoint_count world
                      then world\<lparr>checkpoints :=
                             (checkpoints world)
                               [k := (checkpoints world ! k)
                                       \<lparr>cp_passed := True, cp_lap_count := gs_lap_count packet\<rparr>]\<rparr>
                      else world);
            current_time = (ucast (time_ms now) :: 32 word);
            latency = current_time - ucast (gs_timestamp packet);
            ps = protocol_state g;
            ps1 = (if latency_samples ps < PROTOCOL_MAX_LATENCY_SAMPLES
                   then
                     let n = latency_samples ps + 1
                     in ps\<lparr>latency_samples := n,
                           avg_latency := (avg_latency ps * (n - 1) + latency) div n\<rparr>
                   else ps\<lparr>avg_latency :=
                            (avg_latency ps * (PROTOCOL_MAX_LATENCY_SAMPLES - 1) + latency)
                              div PROTOCOL_MAX_LATENCY_SAMPLES\<rparr>);
            ps2 = ps1\<lparr>last_received_frame := gs_frame_number packet\<rparr>
        in (Applied, g\<lparr>protocol_state := ps2\<rparr>, car', world'))"

section \<open>Divergence detection (protocol.c)\<close>








section \<open>The ring-buffer invariant\<close>

text \<open>
  A buffer is within capacity when its array has the declared 64 slots and its logical
  count is at most 64; the invariant of the protocol state asks it of both buffers.
\<close>

definition buffer_inv :: "input_buffer_t \<Rightarrow> bool" where
  "buffer_inv b \<longleftrightarrow>
     length (inputs b) = PROTOCOL_INPUT_BUFFER_SIZE
     \<and> unat (count b) \<le> PROTOCOL_INPUT_BUFFER_SIZE"

definition protocol_inv :: "protocol_globals \<Rightarrow> bool" where
  "protocol_inv g \<longleftrightarrow>
     buffer_inv (local_input_buffer g) \<and> buffer_inv (remote_input_buffer g)"

section \<open>Two runs of the protocol\<close>

text \<open>
  A host and its peer, both started by \<^verbatim>\<open>protocol_init\<close>.  The peer packs one input
  sample with full throttle; the host receives it.
\<close>

definition example_button_masks :: button_masks_t where
  "example_button_masks = \<lparr>BUTTON_A = 1, BUTTON_B = 2, BUTTON_START = 4, BUTTON_SELECT = 8\<rparr>"

definition example_input :: input_state_t where
  "example_input = \<lparr>throttle = 1, brake = 0, steering = 0, buttons = 0\<rparr>"

definition zero_outputs :: input_outputs where
  "zero_outputs = \<lparr>out_throttle = 0, out_brake = 0, out_steering = 0\<rparr>"

text \<open>
  First run: the host has advanced 33 frames without input, the peer packs its sample at
  its frame 40, the host unpacks it.
\<close>

definition example_peer :: protocol_globals where
  "example_peer = (protocol_advance_frame ^^ 40) (protocol_init False)"

definition example_sample :: input_packet_t where
  "example_sample =
     protocol_pack_input example_button_masks 0 example_peer example_input zero_input_packet"

definition example_host :: protocol_globals where
  "example_host = (protocol_advance_frame ^^ 33) (protocol_init True)"

definition example_host_received :: protocol_globals where
  "example_host_received =
     fst (snd (protocol_unpack_input example_host example_sample zero_outputs))"

text \<open>
  Second run: the peer packs its sample at its frame 9, the host unpacks it at once and
  then advances 32 frames.
\<close>

definition early_peer :: protocol_globals where
  "early_peer = (protocol_advance_frame ^^ 9) (protocol_init False)"

definition early_sample :: input_packet_t where
  "early_sample =
     protocol_pack_input example_button_masks 0 early_peer example_input zero_input_packet"

definition early_host :: protocol_globals where
  "early_host =
     (protocol_advance_frame ^^ 32)
       (fst (snd (protocol_unpack_input (protocol_init True) early_sample zero_outputs)))"

section \<open>Example cars and worlds\<close>


text \<open>
  A car as \<^verbatim>\<open>physics_init\<close> and \<^verbatim>\<open>physics_reset_car\<close> leave it, at a given position; a
  checkpoint of radius 1.0; a world of two cars at the staggered start positions
  \<open>(0, 0)\<close> and \<open>(0, -100)\<close> (raw units) with two checkpoints, the first at the start.
\<close>

definition example_car :: "vec2_t \<Rightarrow> car_physics_t" where
  "example_car pos =
     \<lparr>position = pos, velocity = Vec2 0 0, acceleration = Vec2 0 0, heading = 0,
      angular_vel = 0, speed = 0, mass = 65536000, drag = 9830, friction = 55705\<rparr>"

definition example_checkpoint :: "vec2_t \<Rightarrow> 8 word \<Rightarrow> checkpoint_t" where
  "example_checkpoint pos k =
     \<lparr>cp_position = pos, cp_radius = 65536, cp_passed = False, cp_index = k, cp_lap_count = 0\<rparr>"

definition zero_checkpoint :: checkpoint_t where
  "zero_checkpoint =
     \<lparr>cp_position = Vec2 0 0, cp_radius = 0, cp_passed = False, cp_index = 0, cp_lap_count = 0\<rparr>"

definition example_world :: physics_world_t where
  "example_world =
     \<lparr>cars = [example_car (Vec2 0 0), example_car (Vec2 0 (- 100))],
      checkpoints = [example_checkpoint (Vec2 0 0) 0, example_checkpoint (Vec2 655360 0) 1]
                    @ replicate 14 zero_checkpoint,
      checkpoint_count = 2, current_checkpoint = [0, 0], race_time = [0, 0],
      race_finished = [False, False], track_length = 0, total_laps = 3\<rparr>"


text \<open>
  Two cars 5.0 from the origin, outside the wall radius 4.0: one moving outwards at 1.0,
  one moving inwards at 1.0 with a tangential velocity of 0.5.  \<open>wall_world\<close> has the
  first of them and a car resting at the origin.
\<close>

definition outward_car :: car_physics_t where
  "outward_car = (example_car (Vec2 327680 0))\<lparr>velocity := Vec2 65536 0\<rparr>"

definition inward_car :: car_physics_t where
  "inward_car = (example_car (Vec2 327680 0))\<lparr>velocity := Vec2 (- 65536) 32768\<rparr>"

definition wall_world :: physics_world_t where
  "wall_world = example_world\<lparr>cars := [outward_car, example_car (Vec2 0 0)]\<rparr>"

section \<open>Example packets\<close>

text \<open>
  A game-state packet packed by the peer of the first run, and an input sample that
  the same peer packs from half throttle.
\<close>

definition zero_game_state_packet :: game_state_packet_t where
  "zero_game_state_packet =
     \<lparr>gs_game_state = 0, gs_player_id = 0, gs_frame_number = 0, gs_car_position_x = 0,
      gs_car_position_y = 0, gs_car_velocity_x = 0, gs_car_velocity_y = 0, gs_car_heading = 0,
      gs_checkpoint_index = 0, gs_lap_count = 0, gs_race_finished = 0, gs_timestamp = 0,
      gs_checksum = 0\<rparr>"

definition example_state_packet :: game_state_packet_t where
  "example_state_packet =
     protocol_pack_game_state 0 example_peer example_world (cars example_world ! 0)
       zero_game_state_packet"



section \<open>Facts about the fixed-point operations\<close>

lemma sint_scast_32_64: "sint (scast (a :: 32 word) :: 64 word) = sint a"
  by (simp add: sint_up_scast is_up)

lemma sint_product_bound:
  fixes a b :: "32 word"
  shows "\<bar>sint a * sint b\<bar> \<le> 2 ^ 62"
proof -
  have a: "\<bar>sint a\<bar> \<le> 2 ^ 31"
    using sint_ge [of a] sint_lt [of a] by simp
  have b: "\<bar>sint b\<bar> \<le> 2 ^ 31"
    using sint_ge [of b] sint_lt [of b] by simp
  have "\<bar>sint a\<bar> * \<bar>sint b\<bar> \<le> 2 ^ 31 * 2 ^ 31"
    by (rule mult_mono [OF a b]) simp_all
  then show ?thesis
    by (simp add: abs_mult)
qed

lemma sint_wide_product:
  fixes a b :: "32 word"
  shows "sint ((scast a :: 64 word) * scast b) = sint a * sint b"
proof -
  have "- (2 ^ 63) \<le> sint a * sint b \<and> sint a * sint b < 2 ^ 63"
    using sint_product_bound [of a b] by (simp add: abs_le_iff)
  then have "signed_take_bit 63 (sint a * sint b) = sint a * sint b"
    by (intro signed_take_bit_int_eq_self) simp_all
  then show ?thesis
    by (simp add: sint_word_mult sint_scast_32_64)
qed

lemma sint_wide_shift:
  fixes a b :: "32 word"
  shows "sint (signed_drop_bit 16 ((scast a :: 64 word) * scast b)) = fixed_mul_reference64 a b"
  by (simp add: fixed_mul_reference64_def sint_signed_drop_bit_eq sint_wide_product
      drop_bit_eq_div)

lemma ucast_64_32_sint: "(ucast (w :: 64 word) :: 32 word) = word_of_int (sint w)"
  by (rule bit_word_eqI) (simp add: bit_simps bit_sint_iff)

text \<open>
  C9 (amended).  The 64-bit intermediate of \<open>fixed_mul\<close> never overflows, and
  \<open>fixed_mul a b\<close> is the 64-bit reference value narrowed to its low 32 bits.  It equals
  the reference exactly when the reference fits the 32-bit result type; outside that
  range the narrowing cast wraps.
\<close>

theorem fixed_mul_is_truncated_reference:
  "sint ((scast a :: 64 word) * scast b) = sint a * sint b
   \<and> fixed_mul a b = word_of_int (fixed_mul_reference64 a b)
   \<and> (- (2 ^ 31) \<le> fixed_mul_reference64 a b \<and> fixed_mul_reference64 a b < 2 ^ 31
        \<longrightarrow> sint (fixed_mul a b) = fixed_mul_reference64 a b)"
proof -
  have eq: "fixed_mul a b = word_of_int (fixed_mul_reference64 a b)"
    by (simp add: fixed_mul_def ucast_64_32_sint sint_wide_shift)
  have fit: "sint (fixed_mul a b) = fixed_mul_reference64 a b"
    if "- (2 ^ 31) \<le> fixed_mul_reference64 a b" "fixed_mul_reference64 a b < 2 ^ 31"
  proof -
    have "signed_take_bit 31 (fixed_mul_reference64 a b) = fixed_mul_reference64 a b"
      using that by (intro signed_take_bit_int_eq_self) simp_all
    then show ?thesis
      by (simp add: eq sint_sbintrunc')
  qed
  show ?thesis
    using eq fit sint_wide_product [of a b] by blast
qed

theorem fixed_mul_is_truncated_reference_witness:
  "fixed_mul_reference64 (3 * 65536) (2 * 65536) = 6 * 65536
   \<and> sint (fixed_mul (3 * 65536) (2 * 65536)) = 6 * 65536"
proof -
  have r: "fixed_mul_reference64 (3 * 65536) (2 * 65536) = 6 * 65536"
    by (simp add: fixed_mul_reference64_def)
  show ?thesis
    using fixed_mul_is_truncated_reference [of "3 * 65536" "2 * 65536"] r by simp
qed

text \<open>
  C9 as stated fails at the largest representable operands: the reference value is
  \<open>2^46 - 2^16\<close>, the function returns \<open>-65536\<close>.
\<close>

theorem fixed_mul_largest_operands_counterexample:
  "fixed_mul_reference64 0x7FFFFFFF 0x7FFFFFFF = 70368744112128
   \<and> sint (fixed_mul 0x7FFFFFFF 0x7FFFFFFF) = - 65536"
  by (simp add: fixed_mul_reference64_def fixed_mul_def)



section \<open>Facts about the input ring buffers\<close>

lemma window_offset_bound:
  fixes frame s :: "32 word"
  shows "s \<le> frame \<Longrightarrow> frame < s + 64 \<Longrightarrow> unat (frame - s + 1) \<le> 64"
  by unat_arith

lemma retained_offset_bound:
  fixes frame s c :: "32 word"
  shows "s \<le> frame \<Longrightarrow> frame < s + c \<Longrightarrow> unat c \<le> 64 \<Longrightarrow> unat (frame - s) < 64"
  by unat_arith

lemma buffer_inv_zero: "buffer_inv zero_input_buffer"
  by (simp add: buffer_inv_def zero_input_buffer_def PROTOCOL_INPUT_BUFFER_SIZE_def)

lemma buffer_inv_store:
  assumes "buffer_inv b" "s \<le> frame" "frame < s + 64" "s = start_frame b"
  shows "buffer_inv (b\<lparr>inputs := (inputs b)[i := p],
                       count := MAX_u32 (count b) (frame - s + 1)\<rparr>)"
  using assms window_offset_bound [of s frame]
  by (simp add: buffer_inv_def MAX_u32_def PROTOCOL_INPUT_BUFFER_SIZE_def)

lemma buffer_inv_compact: "buffer_inv b \<Longrightarrow> buffer_inv (compact_buffer cf b)"
  by (simp add: buffer_inv_def compact_buffer_def Let_def PROTOCOL_INPUT_BUFFER_SIZE_def)

lemma inv_init: "protocol_inv (protocol_init host)"
  by (simp add: protocol_inv_def protocol_init_def buffer_inv_zero)

lemma inv_reset: "protocol_inv (protocol_reset g)"
  by (simp add: protocol_inv_def protocol_reset_def buffer_inv_zero)

lemma inv_advance: "protocol_inv g \<Longrightarrow> protocol_inv (protocol_advance_frame g)"
  by (simp add: protocol_inv_def protocol_advance_frame_def Let_def buffer_inv_compact)

lemma inv_store:
  "protocol_inv g \<Longrightarrow> protocol_inv (protocol_store_local_input bm now g input frame)"
  by (simp add: protocol_inv_def protocol_store_local_input_def Let_def buffer_inv_store)

lemma inv_unpack:
  "protocol_inv g \<Longrightarrow> protocol_inv (fst (snd (protocol_unpack_input g packet outs)))"
  by (simp add: protocol_inv_def protocol_unpack_input_def Let_def buffer_inv_store)

lemma buffer_index_less: "buffer_index b frame < 64"
proof -
  have "(frame - start_frame b) mod 64 < 64"
    by (rule word_mod_less_divisor) simp
  then show ?thesis
    by (simp add: buffer_index_def word_less_nat_alt)
qed

lemma buffer_index_retained:
  assumes "buffer_inv b" "start_frame b \<le> frame" "frame < start_frame b + count b"
  shows "buffer_index b frame = unat (frame - start_frame b)"
proof -
  have "unat (frame - start_frame b) < 64"
    using assms retained_offset_bound [of "start_frame b" frame "count b"]
    by (simp add: buffer_inv_def PROTOCOL_INPUT_BUFFER_SIZE_def)
  then show ?thesis
    by (simp add: buffer_index_def unat_mod)
qed

text \<open>
  C10.  Both input buffers are within capacity after \<open>protocol_init\<close>, and each of
  \<open>protocol_store_local_input\<close>, \<open>protocol_unpack_input\<close>, \<open>protocol_advance_frame\<close> and
  \<open>protocol_reset\<close> keeps them so.  In a buffer within capacity every slot index the
  code computes addresses an array element, and a frame of the retained window
  \<open>[start_frame, start_frame + count)\<close> lies less than 64 frames after \<open>start_frame\<close>
  and is stored in the slot of that offset.
\<close>

theorem input_buffers_stay_within_capacity:
  "protocol_inv (protocol_init host)
   \<and> (protocol_inv g \<longrightarrow>
        protocol_inv (protocol_store_local_input bm now g input frame)
        \<and> protocol_inv (fst (snd (protocol_unpack_input g packet outs)))
        \<and> protocol_inv (protocol_advance_frame g)
        \<and> protocol_inv (protocol_reset g))
   \<and> (buffer_inv b \<longrightarrow>
        buffer_index b f < length (inputs b)
        \<and> (start_frame b \<le> f \<and> f < start_frame b + count b \<longrightarrow>
             unat (f - start_frame b) < PROTOCOL_INPUT_BUFFER_SIZE
             \<and> buffer_index b f = unat (f - start_frame b)))"
proof -
  have idx: "buffer_index b f < length (inputs b)" if "buffer_inv b"
    using that buffer_index_less [of b f]
    by (simp add: buffer_inv_def PROTOCOL_INPUT_BUFFER_SIZE_def)
  have ret: "unat (f - start_frame b) < PROTOCOL_INPUT_BUFFER_SIZE"
    if "buffer_inv b" "start_frame b \<le> f" "f < start_frame b + count b"
    using that retained_offset_bound [of "start_frame b" f "count b"]
    by (simp add: buffer_inv_def PROTOCOL_INPUT_BUFFER_SIZE_def)
  show ?thesis
    using inv_init inv_reset inv_advance inv_store inv_unpack idx ret buffer_index_retained
    by blast
qed

section \<open>Facts about the two runs\<close>

lemma funpow_numeral_step: "(f ^^ numeral k) x = (f ^^ pred_numeral k) (f x)"
  by (simp add: numeral_eq_Suc funpow_swap1)

lemma zero_buffer_sel:
  "start_frame zero_input_buffer = 0" "count zero_input_buffer = 0"
  "inputs zero_input_buffer = replicate 64 zero_input_packet"
  by (simp_all add: zero_input_buffer_def PROTOCOL_INPUT_BUFFER_SIZE_def)

lemmas advance_simps =
  funpow_numeral_step protocol_advance_frame_def compact_buffer_def Let_def
  protocol_init_def zero_buffer_sel(1,2)

lemma input_packet_crc_update [simp]:
  "input_packet_crc (p\<lparr>ip_checksum := c\<rparr>) = input_packet_crc p"
  by (simp add: input_packet_crc_def input_packet_bytes_def le32_def le16_def)

lemma pack_input_fields:
  "ip_player_id (protocol_pack_input bm now g input p) = local_player_id (protocol_state g)"
  "ip_frame_number (protocol_pack_input bm now g input p) = current_frame (protocol_state g)"
  "ip_throttle (protocol_pack_input bm now g input p) = (if throttle input \<noteq> 0 then 100 else 0)"
  "ip_brake (protocol_pack_input bm now g input p) = (if brake input \<noteq> 0 then 100 else 0)"
  "ip_steering (protocol_pack_input bm now g input p) = float_to_int8 (steering input * 100)"
  "ip_checksum (protocol_pack_input bm now g input p)
     = input_packet_crc (protocol_pack_input bm now g input p)"
  by (simp_all add: protocol_pack_input_def Let_def)

lemma example_peer_state:
  "current_frame (protocol_state example_peer) = 40"
  "local_player_id (protocol_state example_peer) = 1"
  by (simp_all add: example_peer_def advance_simps)

lemma example_host_state:
  "remote_player_id (protocol_state example_host) = 1"
  "remote_input_buffer example_host = zero_input_buffer\<lparr>start_frame := 17, count := 16\<rparr>"
  by (simp_all add: example_host_def advance_simps)

lemma example_sample_fields:
  "ip_player_id example_sample = 1"
  "ip_frame_number example_sample = 40"
  "ip_throttle example_sample = 100"
  "ip_checksum example_sample = input_packet_crc example_sample"
  by (simp_all add: example_sample_def pack_input_fields example_peer_state example_input_def)

lemma example_host_received_buffer:
  "fst (protocol_unpack_input example_host example_sample zero_outputs) = Applied"
  "remote_input_buffer example_host_received =
     \<lparr>inputs = (replicate 64 zero_input_packet)[23 := example_sample],
      start_frame = 17, count = 24\<rparr>"
  by (simp_all add: example_host_received_def protocol_unpack_input_def Let_def
      example_host_state example_sample_fields buffer_index_def MAX_u32_def
      zero_input_buffer_def PROTOCOL_INPUT_BUFFER_SIZE_def)

lemma early_peer_state:
  "current_frame (protocol_state early_peer) = 9"
  "local_player_id (protocol_state early_peer) = 1"
  by (simp_all add: early_peer_def advance_simps)

lemma early_sample_fields:
  "ip_player_id early_sample = 1"
  "ip_frame_number early_sample = 9"
  "ip_checksum early_sample = input_packet_crc early_sample"
  by (simp_all add: early_sample_def pack_input_fields early_peer_state)

lemma early_host_state:
  "current_frame (protocol_state early_host) = 32"
  "start_frame (remote_input_buffer early_host) = 0"
  "count (remote_input_buffer early_host) = 10"
  by (simp_all add: early_host_def protocol_unpack_input_def early_sample_fields
      buffer_index_def MAX_u32_def advance_simps)

text \<open>
  C1, at an input where the code departs from it.  The host's remote buffer retains
  the window \<open>[17, 41)\<close>; the sample stored for its last frame 40 is the peer's
  full-throttle sample, in slot \<open>(40 - 17) mod 64 = 23\<close>.  The prediction for frame 41
  reads slot \<open>40 mod 64 = 40\<close> instead, which was never written, and returns zero
  throttle.
\<close>

theorem predict_extrapolates_from_unrelated_slot:
  "start_frame (remote_input_buffer example_host_received) = 17
   \<and> count (remote_input_buffer example_host_received) = 24
   \<and> ip_frame_number example_sample = 40 \<and> ip_throttle example_sample = 100
   \<and> inputs (remote_input_buffer example_host_received)
        ! buffer_index (remote_input_buffer example_host_received) 40 = example_sample
   \<and> protocol_predict_remote_input example_host_received 41 zero_input_packet
        = (True, zero_input_packet\<lparr>ip_frame_number := 41\<rparr>)"
  by (simp add: example_host_received_buffer example_sample_fields buffer_index_def
      protocol_predict_remote_input_def Let_def)

theorem input_buffers_stay_within_capacity_witness:
  "protocol_inv (protocol_init True)
   \<and> protocol_inv (protocol_advance_frame (protocol_init True))
   \<and> buffer_inv (remote_input_buffer example_host_received)
   \<and> buffer_index (remote_input_buffer example_host_received) 40 = 23
   \<and> buffer_index (remote_input_buffer example_host_received) 40
        < length (inputs (remote_input_buffer example_host_received))"
proof -
  have b: "buffer_inv (remote_input_buffer example_host_received)"
    by (simp add: buffer_inv_def example_host_received_buffer PROTOCOL_INPUT_BUFFER_SIZE_def)
  have i: "protocol_inv (protocol_init True)"
    by (simp add: protocol_inv_def protocol_init_def buffer_inv_def zero_input_buffer_def)
  show ?thesis
    using b i
      input_buffers_stay_within_capacity
        [of True "protocol_init True" example_button_masks 0 example_input 0
            example_sample zero_outputs "remote_input_buffer example_host_received" 40]
    by (simp add: example_host_received_buffer)
qed

text \<open>
  C2 (amended).  \<open>protocol_advance_frame\<close> adds one to the frame counter (a 32-bit
  counter, so modulo \<open>2^32\<close>).  It compacts a buffer, setting \<open>start_frame\<close> to the new
  counter minus 16 and \<open>count\<close> to 16, exactly when the new counter exceeds
  \<open>start_frame + count + 32\<close>, the end of the retained window plus half the capacity;
  otherwise the buffer is unchanged.  The stored samples are never moved.
\<close>

theorem advance_frame_compacts_past_buffer_end:
  "current_frame (protocol_state (protocol_advance_frame g)) = current_frame (protocol_state g) + 1
   \<and> local_input_buffer (protocol_advance_frame g) =
       (if current_frame (protocol_state g) + 1
             > start_frame (local_input_buffer g) + count (local_input_buffer g) + 32
        then (local_input_buffer g)
               \<lparr>start_frame := current_frame (protocol_state g) + 1 - 16, count := 16\<rparr>
        else local_input_buffer g)
   \<and> remote_input_buffer (protocol_advance_frame g) =
       (if current_frame (protocol_state g) + 1
             > start_frame (remote_input_buffer g) + count (remote_input_buffer g) + 32
        then (remote_input_buffer g)
               \<lparr>start_frame := current_frame (protocol_state g) + 1 - 16, count := 16\<rparr>
        else remote_input_buffer g)"
  by (simp add: protocol_advance_frame_def compact_buffer_def Let_def)

theorem advance_frame_compacts_past_buffer_end_witness:
  "current_frame (protocol_state (protocol_advance_frame early_host)) = 33
   \<and> start_frame (remote_input_buffer (protocol_advance_frame early_host)) = 0
   \<and> count (remote_input_buffer (protocol_advance_frame early_host)) = 10"
  using advance_frame_compacts_past_buffer_end [of early_host]
  by (simp add: early_host_state)

text \<open>
  C2 as stated fails on the second run: after the next call the counter is 33, more than
  32 ahead of the remote buffer's \<open>start_frame = 0\<close>, yet the buffer keeps
  \<open>start_frame = 0\<close> and \<open>count = 10\<close> instead of 17 and 16.
\<close>

theorem advance_frame_32_ahead_of_start_counterexample:
  "current_frame (protocol_state (protocol_advance_frame early_host)) = 33
   \<and> start_frame (remote_input_buffer early_host) = 0
   \<and> start_frame (remote_input_buffer early_host) + 32
        < current_frame (protocol_state (protocol_advance_frame early_host))
   \<and> start_frame (remote_input_buffer (protocol_advance_frame early_host)) = 0
   \<and> count (remote_input_buffer (protocol_advance_frame early_host)) = 10"
  by (simp add: protocol_advance_frame_def compact_buffer_def Let_def early_host_state)

section \<open>Facts about checkpoints and collisions\<close>


lemma clear_passed_Suc:
  "clear_passed (Suc n) cps =
     (clear_passed n cps)[n := (clear_passed n cps ! n)\<lparr>cp_passed := False\<rparr>]"
  by (simp add: clear_passed_def)

lemma length_clear_passed [simp]: "length (clear_passed n cps) = length cps"
  by (induction n) (simp_all add: clear_passed_Suc, simp add: clear_passed_def)




lemmas vec_simps =
  vec2_add_def vec2_sub_def vec2_scale_def vec2_dot_def fixed_mul_def





lemma fixed_sqrt_loop_numeral:
  "fixed_sqrt_loop (numeral k) x result =
     (case fixed_div x result of
        Inl e \<Rightarrow> Inl e
      | Inr temp \<Rightarrow> fixed_sqrt_loop (pred_numeral k) x (signed_drop_bit 1 (result + temp)))"
  by (simp add: numeral_eq_Suc)

lemmas fixed_eval_simps =
  fixed_sqrt_def fixed_sqrt_loop_numeral fixed_div_def sdiv64_def signed_divide_int_def

lemma fixed_sqrt_values:
  "fixed_sqrt 1638400 = Inr 327680"
  "fixed_sqrt 2359284 = Inr 393215"
  "fixed_sqrt 0 = Inr 0"
  by (simp_all add: fixed_eval_simps)

lemma fixed_div_values:
  "fixed_div FIXED16_ONE 327680 = Inr 13107"
  "fixed_div FIXED16_ONE 393215 = Inr 10922"
  by (simp_all add: fixed_div_def sdiv64_def signed_divide_int_def FIXED16_ONE_def)

lemma wall_hit:
  "physics_check_track_collision (Vec2 327680 0) (Vec2 0 0) 0 = Inr (True, Vec2 65535 0, 65536)"
  by (simp add: physics_check_track_collision_def vec2_length_def fixed_mul_def
      fixed_sqrt_values fixed_div_values PHYSICS_WALL_DISTANCE_def vec2_scale_def)

lemma wall_miss:
  "physics_check_track_collision (Vec2 0 0) (Vec2 0 0) 0 = Inr (False, Vec2 0 0, 0)"
  by (simp add: physics_check_track_collision_def vec2_length_def fixed_mul_def
      fixed_sqrt_values PHYSICS_WALL_DISTANCE_def)

lemma outward_car_resolved:
  "resolve_track_collision (Vec2 0 0) 0 outward_car
     = Inr (outward_car\<lparr>position := Vec2 393215 0\<rparr>)"
  by (simp add: resolve_track_collision_def outward_car_def example_car_def wall_hit
      vec_simps Let_def)

lemma inward_car_resolved:
  "resolve_track_collision (Vec2 0 0) 0 inward_car
     = Inr (inward_car\<lparr>position := Vec2 393215 0, velocity := Vec2 49149 24576\<rparr>)"
  by (simp add: resolve_track_collision_def inward_car_def example_car_def wall_hit
      vec_simps Let_def FIXED16_ONE_def PHYSICS_COLLISION_ELASTICITY_def)

lemma origin_car_resolved:
  "resolve_track_collision (Vec2 0 0) 0 (example_car (Vec2 0 0)) = Inr (example_car (Vec2 0 0))"
  by (simp add: resolve_track_collision_def example_car_def wall_miss)

lemma wall_world_resolved:
  "resolve_collisions (Vec2 0 0) 0 wall_world =
     Inr (wall_world
            \<lparr>cars := [outward_car\<lparr>position := Vec2 3669765 0, velocity := Vec2 0 0\<rparr>,
                      (example_car (Vec2 (- 3276550) 0))\<lparr>velocity := Vec2 65536 0\<rparr>]\<rparr>)"
  by (simp add: resolve_collisions_def wall_world_def outward_car_resolved origin_car_resolved)
     (simp add: resolve_car_pair_def physics_check_car_collision_def outward_car_def
        example_car_def vec_simps Let_def INT_TO_FIXED16_def vec2_length_def
        fixed_sqrt_values fixed_div_values)

text \<open>
  C3, at inputs where the code departs from it.  A car 5.0 from the origin (wall radius
  4.0) moving outwards is moved to 5.99998, away from the boundary, and keeps its outward
  velocity.  The same car moving inwards is moved out as well, its velocity is turned
  outwards, and its tangential component 0.5 becomes 0.375.  After the whole of
  \<open>resolve_collisions\<close> the first car of \<open>wall_world\<close> is 55.996 from the origin.
\<close>

theorem wall_collision_moves_car_further_out:
  "vec2_length (position outward_car) = Inr 327680
   \<and> sint PHYSICS_WALL_DISTANCE < sint (327680 :: fixed16_t)
   \<and> velocity outward_car = Vec2 65536 0
   \<and> resolve_track_collision (Vec2 0 0) 0 outward_car
        = Inr (outward_car\<lparr>position := Vec2 393215 0\<rparr>)
   \<and> velocity inward_car = Vec2 (- 65536) 32768
   \<and> resolve_track_collision (Vec2 0 0) 0 inward_car
        = Inr (inward_car\<lparr>position := Vec2 393215 0, velocity := Vec2 49149 24576\<rparr>)
   \<and> cars wall_world ! 0 = outward_car
   \<and> resolve_collisions (Vec2 0 0) 0 wall_world
        = Inr (wall_world
                 \<lparr>cars := [outward_car\<lparr>position := Vec2 3669765 0, velocity := Vec2 0 0\<rparr>,
                           (example_car (Vec2 (- 3276550) 0))\<lparr>velocity := Vec2 65536 0\<rparr>]\<rparr>)"
  using outward_car_resolved inward_car_resolved wall_world_resolved
  by (simp add: outward_car_def inward_car_def example_car_def wall_world_def
      vec2_length_def fixed_mul_def fixed_sqrt_values PHYSICS_WALL_DISTANCE_def)

section \<open>Facts about the CRC and the wire format\<close>

lemma and_1_word: "(w :: 16 word) AND 1 \<noteq> 0 \<longleftrightarrow> bit w 0"
  by (simp add: and_one_eq bit_0 word_eq_iff_unsigned[where ?'a=nat] unat_mod mod2_eq_if) 

lemma le16_rd16: "le16 (rd16 a b) = [a, b]"
  apply (simp add: le16_def rd16_def)
  apply (rule conjI; rule bit_word_eqI)
   apply (auto simp add: bit_simps dest: bit_imp_le_length)
  done

lemma le32_rd32: "le32 (rd32 a b c d) = [a, b, c, d]"
  apply (simp add: le32_def rd32_def)
  apply (intro conjI; rule bit_word_eqI)
     apply (auto simp add: bit_simps dest: bit_imp_le_length)
  done

lemma round_bit15: "bit (crc16_round a) 15 \<longleftrightarrow> bit a 0"
  using bit_imp_le_length [of a 16] by (auto simp add: crc16_round_def and_1_word bit_simps)

lemma round_shift: "drop_bit 1 a = crc16_round a XOR (if bit a 0 then 0xA001 else 0)"
  by (simp add: crc16_round_def and_1_word xor.assoc)

lemma word_from_shift:
  fixes a b :: "16 word"
  assumes "bit a 0 = bit b 0" "drop_bit 1 a = drop_bit 1 b"
  shows "a = b"
proof (rule bit_word_eqI)
  fix n assume "n < LENGTH(16)"
  show "bit a n = bit b n"
  proof (cases n)
    case 0
    then show ?thesis using assms(1) by simp
  next
    case (Suc m)
    have "bit (drop_bit 1 a) m = bit (drop_bit 1 b) m"
      using assms(2) by simp
    then show ?thesis
      using Suc by (simp add: bit_drop_bit_eq)
  qed
qed

lemma crc16_round_inj: "crc16_round a = crc16_round b \<Longrightarrow> a = b"
proof -
  assume eq: "crc16_round a = crc16_round b"
  have b0: "bit a 0 = bit b 0"
    using round_bit15 [of a] round_bit15 [of b] eq by simp
  have "drop_bit 1 a = drop_bit 1 b"
    using round_shift [of a] round_shift [of b] eq b0 by simp
  with b0 show "a = b" by (rule word_from_shift)
qed



lemma crc16_rounds_inj: "(crc16_round ^^ n) a = (crc16_round ^^ n) b \<Longrightarrow> a = b"
proof (induction n arbitrary: a b)
  case 0
  then show ?case by simp
next
  case (Suc n)
  from Suc.prems
  have "crc16_round ((crc16_round ^^ n) a) = crc16_round ((crc16_round ^^ n) b)"
    by simp
  then have "(crc16_round ^^ n) a = (crc16_round ^^ n) b"
    by (rule crc16_round_inj)
  then show ?case
    by (rule Suc.IH)
qed

lemma ucast_8_16_inj:
  assumes "(ucast (a :: 8 word) :: 16 word) = ucast b"
  shows "a = b"
proof -
  have "(ucast (ucast a :: 16 word) :: 8 word) = ucast (ucast b :: 16 word)"
    using assms by simp
  then show ?thesis
    by (simp add: ucast_up_ucast_id is_up)
qed

lemma xor_cancel_left:
  fixes c x y :: "16 word"
  assumes "c XOR x = c XOR y"
  shows "x = y"
  by (metis assms xor.assoc xor_self_eq xor.left_neutral)

lemma xor_cancel_right:
  fixes c c' x :: "16 word"
  assumes "c XOR x = c' XOR x"
  shows "c = c'"
  by (metis assms xor.assoc xor_self_eq xor.right_neutral)

lemma crc16_byte_inj_crc:
  assumes "crc16_byte c b = crc16_byte c' b"
  shows "c = c'"
proof -
  have "c XOR ucast b = c' XOR ucast b"
    using assms unfolding crc16_byte_def by (rule crc16_rounds_inj)
  then show ?thesis
    by (rule xor_cancel_right)
qed

lemma crc16_byte_inj_byte:
  assumes "crc16_byte c b = crc16_byte c b'"
  shows "b = b'"
proof -
  have "c XOR ucast b = c XOR ucast b'"
    using assms unfolding crc16_byte_def by (rule crc16_rounds_inj)
  then have "(ucast b :: 16 word) = ucast b'"
    by (rule xor_cancel_left)
  then show ?thesis
    by (rule ucast_8_16_inj)
qed

lemma crc16_fold_inj: "foldl crc16_byte c xs = foldl crc16_byte c' xs \<Longrightarrow> c = c'"
proof (induction xs arbitrary: c c')
  case Nil
  then show ?case by simp
next
  case (Cons x xs)
  from Cons.prems have "foldl crc16_byte (crc16_byte c x) xs = foldl crc16_byte (crc16_byte c' x) xs"
    by simp
  then have "crc16_byte c x = crc16_byte c' x"
    by (rule Cons.IH)
  then show ?case
    by (rule crc16_byte_inj_crc)
qed

lemma crc16_fold_changed_byte:
  "i < length xs \<Longrightarrow> b \<noteq> xs ! i \<Longrightarrow>
     foldl crc16_byte c (xs[i := b]) \<noteq> foldl crc16_byte c xs"
proof (induction xs arbitrary: c i)
  case Nil
  then show ?case by simp
next
  case (Cons x xs)
  show ?case
  proof (cases i)
    case 0
    have "crc16_byte c b \<noteq> crc16_byte c x"
      using Cons.prems 0 crc16_byte_inj_byte [of c b x] by auto
    then have "foldl crc16_byte (crc16_byte c b) xs \<noteq> foldl crc16_byte (crc16_byte c x) xs"
      using crc16_fold_inj [of "crc16_byte c b" xs "crc16_byte c x"] by blast
    then show ?thesis
      using 0 by simp
  next
    case (Suc j)
    with Cons.prems have "foldl crc16_byte (crc16_byte c x) (xs[j := b])
        \<noteq> foldl crc16_byte (crc16_byte c x) xs"
      by (intro Cons.IH) simp_all
    then show ?thesis
      using Suc by simp
  qed
qed

lemma crc16_changed_byte:
  "i < length xs \<Longrightarrow> b \<noteq> xs ! i \<Longrightarrow> crc16 (xs[i := b]) \<noteq> crc16 xs"
  by (simp add: crc16_def crc16_fold_changed_byte)

lemma rd16_inj:
  assumes "rd16 a b = rd16 a' b'"
  shows "a = a' \<and> b = b'"
proof -
  have "le16 (rd16 a b) = le16 (rd16 a' b')"
    using assms by (rule arg_cong)
  then have "[a, b] = [a', b']"
    by (simp only: le16_rd16)
  then show ?thesis
    by simp
qed

lemma take11:
  "length (bs :: 'a list) = 13 \<Longrightarrow>
     take 11 bs = [bs ! 0, bs ! 1, bs ! 2, bs ! 3, bs ! 4, bs ! 5, bs ! 6, bs ! 7, bs ! 8, bs ! 9,
           bs ! 10]"
  by (simp add: eval_nat_numeral take_Suc_conv_app_nth)

lemma take31:
  "length (bs :: 'a list) = 33 \<Longrightarrow>
     take 31 bs = [bs ! 0, bs ! 1, bs ! 2, bs ! 3, bs ! 4, bs ! 5, bs ! 6, bs ! 7, bs ! 8, bs ! 9, bs ! 10, bs ! 11, bs ! 12, bs ! 13, bs ! 14, bs ! 15, bs ! 16, bs ! 17, bs ! 18, bs ! 19, bs ! 20, bs ! 21, bs ! 22, bs ! 23, bs ! 24, bs ! 25, bs ! 26, bs ! 27, bs ! 28, bs ! 29, bs ! 30]"
  by (simp add: eval_nat_numeral take_Suc_conv_app_nth)


lemma rd16_le16: "rd16 (ucast w) (ucast (drop_bit 8 w)) = w"
  unfolding rd16_def
  by (rule bit_word_eqI) (auto simp add: bit_simps)

lemma rd32_le32:
  "rd32 (ucast w) (ucast (drop_bit 8 w)) (ucast (drop_bit 16 w)) (ucast (drop_bit 24 w)) = w"
  unfolding rd32_def
  apply (rule bit_word_eqI)
  apply (auto simp add: bit_simps)
  subgoal for n by (cases "24 \<le> n") simp_all
  done

lemma wire_corruption:
  assumes len: "length ws = n + 2" and i: "i < n + 2" and b: "b \<noteq> ws ! i"
    and valid: "rd16 (ws ! n) (ws ! Suc n) = crc16 (take n ws)"
  shows "rd16 (ws[i := b] ! n) (ws[i := b] ! Suc n) \<noteq> crc16 (take n (ws[i := b]))"
proof (cases "i < n")
  case True
  have "crc16 ((take n ws)[i := b]) \<noteq> crc16 (take n ws)"
    using True b len by (intro crc16_changed_byte) simp_all
  then show ?thesis
    using True valid by (simp add: take_update_swap)
next
  case False
  then have "i = n \<or> i = Suc n"
    using i by arith
  then have "ws[i := b] ! n \<noteq> ws ! n \<or> ws[i := b] ! Suc n \<noteq> ws ! Suc n"
    using b len by auto
  then have "rd16 (ws[i := b] ! n) (ws[i := b] ! Suc n) \<noteq> rd16 (ws ! n) (ws ! Suc n)"
    using rd16_inj by blast
  then show ?thesis
    using False valid by simp
qed

lemma length_input_packet_bytes [simp]: "length (input_packet_bytes p) = 13"
  by (simp add: input_packet_bytes_def le32_def le16_def)

lemma length_game_state_packet_bytes [simp]: "length (game_state_packet_bytes p) = 33"
  by (simp add: game_state_packet_bytes_def le32_def le16_def)

lemma input_packet_bytes_of_bytes:
  "input_packet_bytes (input_packet_of_bytes bs) = [bs ! 0, bs ! 1, bs ! 2, bs ! 3, bs ! 4, bs ! 5, bs ! 6, bs ! 7, bs ! 8, bs ! 9, bs ! 10, bs ! 11, bs ! 12]"
  by (simp add: input_packet_bytes_def input_packet_of_bytes_def le32_rd32 le16_rd16)

lemma game_state_packet_bytes_of_bytes:
  "game_state_packet_bytes (game_state_packet_of_bytes bs) = [bs ! 0, bs ! 1, bs ! 2, bs ! 3, bs ! 4, bs ! 5, bs ! 6, bs ! 7, bs ! 8, bs ! 9, bs ! 10, bs ! 11, bs ! 12, bs ! 13, bs ! 14, bs ! 15, bs ! 16, bs ! 17, bs ! 18, bs ! 19, bs ! 20, bs ! 21, bs ! 22, bs ! 23, bs ! 24, bs ! 25, bs ! 26, bs ! 27, bs ! 28, bs ! 29, bs ! 30, bs ! 31, bs ! 32]"
  by (simp add: game_state_packet_bytes_def game_state_packet_of_bytes_def le32_rd32 le16_rd16)

lemma input_packet_of_bytes_bytes: "input_packet_of_bytes (input_packet_bytes p) = p"
  by (simp add: input_packet_bytes_def input_packet_of_bytes_def le32_def le16_def
      rd32_le32 rd16_le16)

lemma game_state_packet_of_bytes_bytes:
  "game_state_packet_of_bytes (game_state_packet_bytes p) = p"
  by (simp add: game_state_packet_bytes_def game_state_packet_of_bytes_def le32_def le16_def
      rd32_le32 rd16_le16)

lemma input_packet_crc_of_bytes:
  "length bs = 13 \<Longrightarrow> input_packet_crc (input_packet_of_bytes bs) = crc16 (take 11 bs)"
  by (simp add: input_packet_crc_def input_packet_bytes_of_bytes take11)

lemma game_state_packet_crc_of_bytes:
  "length bs = 33 \<Longrightarrow>
     game_state_packet_crc (game_state_packet_of_bytes bs) = crc16 (take 31 bs)"
  by (simp add: game_state_packet_crc_def game_state_packet_bytes_of_bytes take31)

lemma input_packet_checksum_of_bytes:
  "ip_checksum (input_packet_of_bytes bs) = rd16 (bs ! 11) (bs ! Suc 11)"
  "ip_player_id (input_packet_of_bytes bs) = bs ! 0"
  by (simp_all add: input_packet_of_bytes_def)

lemma game_state_packet_checksum_of_bytes:
  "gs_checksum (game_state_packet_of_bytes bs) = rd16 (bs ! 31) (bs ! Suc 31)"
  "gs_player_id (game_state_packet_of_bytes bs) = bs ! 1"
  by (simp_all add: game_state_packet_of_bytes_def)

lemma corrupted_input_packet:
  assumes valid: "ip_checksum p = input_packet_crc p"
    and i: "i < 13" and b: "b \<noteq> input_packet_bytes p ! i"
  shows "ip_checksum (input_packet_of_bytes ((input_packet_bytes p)[i := b]))
           \<noteq> input_packet_crc (input_packet_of_bytes ((input_packet_bytes p)[i := b]))"
proof -
  have "rd16 (input_packet_bytes p ! 11) (input_packet_bytes p ! Suc 11)
          = crc16 (take 11 (input_packet_bytes p))"
    using valid input_packet_checksum_of_bytes(1) [of "input_packet_bytes p"]
    by (simp add: input_packet_of_bytes_bytes input_packet_crc_def)
  then have "rd16 ((input_packet_bytes p)[i := b] ! 11) ((input_packet_bytes p)[i := b] ! Suc 11)
          \<noteq> crc16 (take 11 ((input_packet_bytes p)[i := b]))"
    using i b by (intro wire_corruption) simp_all
  then show ?thesis
    by (simp add: input_packet_checksum_of_bytes input_packet_crc_of_bytes)
qed

lemma corrupted_game_state_packet:
  assumes valid: "gs_checksum p = game_state_packet_crc p"
    and i: "i < 33" and b: "b \<noteq> game_state_packet_bytes p ! i"
  shows "gs_checksum (game_state_packet_of_bytes ((game_state_packet_bytes p)[i := b]))
           \<noteq> game_state_packet_crc
                (game_state_packet_of_bytes ((game_state_packet_bytes p)[i := b]))"
proof -
  have "rd16 (game_state_packet_bytes p ! 31) (game_state_packet_bytes p ! Suc 31)
          = crc16 (take 31 (game_state_packet_bytes p))"
    using valid game_state_packet_checksum_of_bytes(1) [of "game_state_packet_bytes p"]
    by (simp add: game_state_packet_of_bytes_bytes game_state_packet_crc_def)
  then have "rd16 ((game_state_packet_bytes p)[i := b] ! 31)
               ((game_state_packet_bytes p)[i := b] ! Suc 31)
          \<noteq> crc16 (take 31 ((game_state_packet_bytes p)[i := b]))"
    using i b by (intro wire_corruption) simp_all
  then show ?thesis
    by (simp add: game_state_packet_checksum_of_bytes game_state_packet_crc_of_bytes)
qed

lemma input_packet_player_byte: "input_packet_bytes p ! 0 = ip_player_id p"
  by (simp add: input_packet_bytes_def)

lemma game_state_packet_player_byte: "game_state_packet_bytes p ! 1 = gs_player_id p"
  by (simp add: game_state_packet_bytes_def)

text \<open>
  C5 (amended).  Take a packet whose checksum is the one the packing functions compute
  and whose player id is the remote id the receiver expects, and replace any one byte of
  its wire image by a different value.  Unpacking the result never applies anything: the
  protocol state, the outputs, the car and the world are returned as they were.  The
  report is \<open>ChecksumMismatch\<close>, except when the changed byte is the player id (byte 0
  of an input packet, byte 1 of a game-state packet): that test comes first and the
  report is \<open>WrongPlayerId\<close>.
\<close>

theorem corrupted_packet_is_dropped_unapplied:
  "(ip_checksum p = input_packet_crc p
      \<and> ip_player_id p = remote_player_id (protocol_state g)
      \<and> i < 13 \<and> b \<noteq> input_packet_bytes p ! i
    \<longrightarrow> protocol_unpack_input g
          (input_packet_of_bytes ((input_packet_bytes p)[i := b])) outs
        = (if i = 0 then WrongPlayerId else ChecksumMismatch, g, outs))
   \<and> (gs_checksum q = game_state_packet_crc q
        \<and> gs_player_id q = remote_player_id (protocol_state g)
        \<and> j < 33 \<and> c \<noteq> game_state_packet_bytes q ! j
      \<longrightarrow> protocol_unpack_game_state now g
            (game_state_packet_of_bytes ((game_state_packet_bytes q)[j := c])) car world
          = (if j = 1 then WrongPlayerId else ChecksumMismatch, g, car, world))"
proof (intro conjI impI; elim conjE)
  assume valid: "ip_checksum p = input_packet_crc p"
    and pid: "ip_player_id p = remote_player_id (protocol_state g)"
    and i: "i < 13" and b: "b \<noteq> input_packet_bytes p ! i"
  have bad: "ip_checksum (input_packet_of_bytes ((input_packet_bytes p)[i := b]))
               \<noteq> input_packet_crc (input_packet_of_bytes ((input_packet_bytes p)[i := b]))"
    using valid i b by (rule corrupted_input_packet)
  have id: "ip_player_id (input_packet_of_bytes ((input_packet_bytes p)[i := b]))
               = (if i = 0 then b else ip_player_id p)"
    using input_packet_player_byte [of p]
    by (simp add: input_packet_checksum_of_bytes(2))
  show "protocol_unpack_input g (input_packet_of_bytes ((input_packet_bytes p)[i := b])) outs
        = (if i = 0 then WrongPlayerId else ChecksumMismatch, g, outs)"
    using bad id pid b input_packet_player_byte [of p]
    by (auto simp add: protocol_unpack_input_def)
next
  assume valid: "gs_checksum q = game_state_packet_crc q"
    and pid: "gs_player_id q = remote_player_id (protocol_state g)"
    and j: "j < 33" and c: "c \<noteq> game_state_packet_bytes q ! j"
  have bad: "gs_checksum (game_state_packet_of_bytes ((game_state_packet_bytes q)[j := c]))
               \<noteq> game_state_packet_crc
                    (game_state_packet_of_bytes ((game_state_packet_bytes q)[j := c]))"
    using valid j c by (rule corrupted_game_state_packet)
  have id: "gs_player_id (game_state_packet_of_bytes ((game_state_packet_bytes q)[j := c]))
               = (if j = 1 then c else gs_player_id q)"
    using game_state_packet_player_byte [of q]
    by (simp add: game_state_packet_checksum_of_bytes(2))
  show "protocol_unpack_game_state now g
            (game_state_packet_of_bytes ((game_state_packet_bytes q)[j := c])) car world
          = (if j = 1 then WrongPlayerId else ChecksumMismatch, g, car, world)"
    using bad id pid c game_state_packet_player_byte [of q]
    by (auto simp add: protocol_unpack_game_state_def)
qed

section \<open>Facts about packing and unpacking\<close>

lemma game_state_packet_crc_update [simp]:
  "game_state_packet_crc (p\<lparr>gs_checksum := c\<rparr>) = game_state_packet_crc p"
  by (simp add: game_state_packet_crc_def game_state_packet_bytes_def le32_def le16_def)

lemma pack_game_state_fields:
  "gs_player_id (protocol_pack_game_state now g world car p) = local_player_id (protocol_state g)"
  "gs_frame_number (protocol_pack_game_state now g world car p)
     = current_frame (protocol_state g)"
  "gs_checksum (protocol_pack_game_state now g world car p)
     = game_state_packet_crc (protocol_pack_game_state now g world car p)"
  by (simp_all add: protocol_pack_game_state_def Let_def split: option.split)

lemma example_state_packet_fields:
  "gs_player_id example_state_packet = 1"
  "gs_frame_number example_state_packet = 40"
  "gs_checksum example_state_packet = game_state_packet_crc example_state_packet"
  by (simp_all add: example_state_packet_def pack_game_state_fields example_peer_state)

lemma example_wire_bytes:
  "input_packet_bytes example_sample ! 5 = 40"
  "game_state_packet_bytes example_state_packet ! 2 = 40"
  by (simp_all add: input_packet_bytes_def game_state_packet_bytes_def le32_def
      example_sample_fields example_state_packet_fields)

theorem corrupted_packet_is_dropped_unapplied_witness:
  "protocol_unpack_input example_host
      (input_packet_of_bytes ((input_packet_bytes example_sample)[5 := 0])) zero_outputs
     = (ChecksumMismatch, example_host, zero_outputs)
   \<and> protocol_unpack_game_state 0 example_host
        (game_state_packet_of_bytes ((game_state_packet_bytes example_state_packet)[2 := 0]))
        (cars example_world ! 1) example_world
     = (ChecksumMismatch, example_host, cars example_world ! 1, example_world)"
  using corrupted_packet_is_dropped_unapplied
    [where p = example_sample and g = example_host and i = 5 and b = 0
       and outs = zero_outputs and q = example_state_packet and j = 2 and c = 0
       and now = 0 and car = "cars example_world ! 1" and world = example_world]
  by (simp add: example_sample_fields example_state_packet_fields example_host_state
      example_wire_bytes)

text \<open>
  C5 as stated fails for the byte that holds the player id: the packet is dropped
  unapplied, but the report is \<open>WrongPlayerId\<close>, not \<open>ChecksumMismatch\<close>.
\<close>

theorem corrupted_player_id_byte_counterexample:
  "ip_checksum example_sample = input_packet_crc example_sample
   \<and> ip_player_id example_sample = remote_player_id (protocol_state example_host)
   \<and> input_packet_bytes example_sample ! 0 = 1
   \<and> protocol_unpack_input example_host
        (input_packet_of_bytes ((input_packet_bytes example_sample)[0 := 0])) zero_outputs
       = (WrongPlayerId, example_host, zero_outputs)"
  by (simp add: example_sample_fields example_host_state input_packet_player_byte
      protocol_unpack_input_def input_packet_checksum_of_bytes(2))











section \<open>Facts about the square root and the divergence test\<close>






















end
